theory Spec2Isabelle
  imports Complex_Main
begin

section \<open>Python values and built-ins used by the code\<close>

text \<open>
  The conversation context (\<^verbatim>\<open>src/conversation/context.py\<close>) and the character
  resolver (\<^verbatim>\<open>src/games/gameable.py\<close>) are Python. Strings are modelled as
  \<^typ>\<open>string\<close> (ASCII text), Python's unbounded integers as \<^typ>\<open>int\<close>, and every
  exception the modelled code can raise is a value of \<open>exn\<close>; a fallible function
  returns \<open>exn + 'a\<close> with \<open>Inl\<close> carrying the exception.
\<close>

datatype exn =
    IndexError
  | KeyError string
  | UnboundLocalError string
  | ValueError
  | AttributeError
  | TypeError
  | OutsideFragment

datatype pyval = PyStr string | PyInt int

text \<open>\<^verbatim>\<open>str(n)\<close> for an integer: decimal digits, a minus sign when negative.\<close>

fun digits_of :: "nat \<Rightarrow> string" where
  "digits_of n =
     (if n < 10 then [''0123456789'' ! n]
      else digits_of (n div 10) @ [''0123456789'' ! (n mod 10)])"

definition str_int :: "int \<Rightarrow> string" where
  "str_int i = (if i < 0 then CHR ''-'' # digits_of (nat (- i)) else digits_of (nat i))"

definition py_str :: "pyval \<Rightarrow> string" where
  "py_str v = (case v of PyStr s \<Rightarrow> s | PyInt i \<Rightarrow> str_int i)"

text \<open>\<^verbatim>\<open>s.lower()\<close> on ASCII text.\<close>

definition lower_char :: "char \<Rightarrow> char" where
  "lower_char c =
     (case map_of (zip ''ABCDEFGHIJKLMNOPQRSTUVWXYZ'' ''abcdefghijklmnopqrstuvwxyz'') c of
        Some d \<Rightarrow> d
      | None \<Rightarrow> c)"

definition lower :: "string \<Rightarrow> string" where
  "lower s = map lower_char s"

text \<open>\<^verbatim>\<open>s.lstrip('0')\<close> and the slice \<^verbatim>\<open>s[-n:]\<close> for \<open>n > 0\<close> (the whole string when
  it is shorter than \<open>n\<close>).\<close>

definition lstrip_zeros :: "string \<Rightarrow> string" where
  "lstrip_zeros s = dropWhile (\<lambda>c. c = CHR ''0'') s"

definition last_chars :: "nat \<Rightarrow> string \<Rightarrow> string" where
  "last_chars n s = drop (length s - n) s"

text \<open>\<^verbatim>\<open>s.split(sep)\<close> for a non-empty separator: the pieces between the
  non-overlapping occurrences of \<open>sep\<close>, scanned from the left. \<open>acc\<close> is the piece
  being collected.\<close>

fun split_from :: "string \<Rightarrow> string \<Rightarrow> string \<Rightarrow> string list" where
  "split_from sep acc [] = [acc]"
| "split_from sep acc (c # cs) =
     (if take (length sep) (c # cs) = sep
      then acc # split_from sep [] (drop (length sep - 1) cs)
      else split_from sep (acc @ [c]) cs)"

definition split :: "string \<Rightarrow> string \<Rightarrow> string list" where
  "split s sep = split_from sep [] s"

text \<open>Indexing a list with a non-negative index; out of range raises \<open>IndexError\<close>.\<close>

definition index :: "'a list \<Rightarrow> nat \<Rightarrow> exn + 'a" where
  "index xs i = (if i < length xs then Inr (xs ! i) else Inl IndexError)"

text \<open>\<^verbatim>\<open>sep.join(xs)\<close>.\<close>

fun join :: "string \<Rightarrow> string list \<Rightarrow> string" where
  "join sep [] = []"
| "join sep [x] = x"
| "join sep (x # y # ys) = x @ sep @ join sep (y # ys)"

section \<open>The character table and the resolver\<close>

subsection \<open>The table\<close>

text \<open>
  The character table is a pandas data frame read from a CSV file. A cell of a text
  column is a string, or \<open>NaN\<close> where the file has no value. A row has the columns the
  resolver reads (\<^verbatim>\<open>base_id\<close>, \<^verbatim>\<open>name\<close>, \<^verbatim>\<open>race\<close>, \<^verbatim>\<open>voice_model\<close>) and
  whatever other columns the file has (the record's extension). The field \<open>name\<close> of a
  row is written \<open>csv_row.name\<close> below, since characters have a \<open>name\<close> too.
\<close>

datatype cell = NaN | Str string

record csv_row =
  base_id :: cell
  name :: cell
  race :: cell
  voice_model :: cell

type_synonym 'z data_frame = "'z csv_row_scheme list"

definition isna :: "cell \<Rightarrow> bool" where
  "isna x = (x = NaN)"

definition notna :: "cell \<Rightarrow> bool" where
  "notna x = (x \<noteq> NaN)"

text \<open>\<^verbatim>\<open>str(x)\<close> of a cell, also what \<^verbatim>\<open>astype(str)\<close> gives: the string itself, and
  \<^verbatim>\<open>'nan'\<close> for a missing value.\<close>

definition str_cell :: "cell \<Rightarrow> string" where
  "str_cell x = (case x of NaN \<Rightarrow> ''nan'' | Str s \<Rightarrow> s)"

text \<open>A boolean series is a list of booleans aligned with the rows. \<^verbatim>\<open>a & b\<close>,
  \<^verbatim>\<open>series.any()\<close>, \<^verbatim>\<open>df.loc[mask]\<close> and \<^verbatim>\<open>.to_dict('records')[0]\<close>.\<close>

definition series_and :: "bool list \<Rightarrow> bool list \<Rightarrow> bool list" where
  "series_and a b = map2 (\<and>) a b"

definition series_any :: "bool list \<Rightarrow> bool" where
  "series_any a = list_ex (\<lambda>b. b) a"

definition df_loc :: "'r list \<Rightarrow> bool list \<Rightarrow> 'r list" where
  "df_loc df series = map fst (filter snd (zip df series))"

definition first_record :: "'r list \<Rightarrow> exn + 'r" where
  "first_record rows = index rows 0"

subsection \<open>Loading the table\<close>

text \<open>
  \<^verbatim>\<open>gameable.__get_character_df\<close>. Detecting the encoding and reading the file are
  external (\<^verbatim>\<open>utils.get_file_encoding\<close>, \<^verbatim>\<open>pandas.read_csv\<close>) and may raise; they are
  parameters.
\<close>

definition get_character_df ::
  "(string \<Rightarrow> exn + string) \<Rightarrow> (string \<Rightarrow> string \<Rightarrow> exn + 'z data_frame) \<Rightarrow> string
     \<Rightarrow> exn + 'z data_frame" where
  "get_character_df get_file_encoding read_csv file_name =
     (case get_file_encoding file_name of
        Inl e \<Rightarrow> Inl e
      | Inr encoding \<Rightarrow>
          (case read_csv file_name encoding of
             Inl e \<Rightarrow> Inl e
           | Inr character_df \<Rightarrow> Inr (filter (\<lambda>r. notna (voice_model r)) character_df)))"

text \<open>
  \<^verbatim>\<open>gameable.__init__\<close>. What the constructor does to the outside is a list of effects;
  how it ends is an outcome: it returns the constructed object, or the process exits.
  The attribute \<^verbatim>\<open>__character_df\<close> is \<open>None\<close> when it was never assigned.
  \<open>integrated_root\<close> stands for the fourth parent of \<^verbatim>\<open>utils.resolve_path()\<close>.
\<close>

datatype effect = LogError string | InputPrompt string

datatype 'a outcome = Returned 'a | Exited int

record 'z gameable =
  character_df :: "'z data_frame option"
  conversation_folder_path :: string

definition gameable_init ::
  "(string \<Rightarrow> exn + string) \<Rightarrow> (string \<Rightarrow> string \<Rightarrow> exn + 'z data_frame) \<Rightarrow> string list
     \<Rightarrow> string \<Rightarrow> string \<Rightarrow> string \<Rightarrow> effect list \<times> 'z gameable outcome" where
  "gameable_init get_file_encoding read_csv argv integrated_root path_to_character_df
       mantella_game_folder_path =
     (let (effects, df) =
            (case get_character_df get_file_encoding read_csv path_to_character_df of
               Inr loaded \<Rightarrow> ([], Some loaded)
             | Inl e \<Rightarrow>
                 ([LogError (''Unable to read / open '' @ path_to_character_df
                      @ ''. If you have recently edited this file, please try reverting to a previous version. This error is normally due to using special characters, or saving the CSV in an incompatible format.''),
                   InputPrompt ''Press Enter to exit.''],
                  None));
          folder =
            (if ''--integrated'' \<in> set argv
             then integrated_root @ ''/MantellaData/conversations''
             else ''data/'' @ mantella_game_folder_path @ ''/conversations'')
      in (effects, Returned \<lparr>character_df = df, conversation_folder_path = folder\<rparr>))"

subsection \<open>Resolving a character\<close>

text \<open>The inner function \<^verbatim>\<open>remove_leading_zeros\<close> of \<^verbatim>\<open>find_character_info\<close>.\<close>

definition remove_leading_zeros :: "cell \<Rightarrow> string" where
  "remove_leading_zeros hex_str =
     (if isna hex_str then '''' else lstrip_zeros (str_cell hex_str))"

text \<open>The three match series computed first.\<close>

definition id_match :: "'z data_frame \<Rightarrow> string \<Rightarrow> bool list" where
  "id_match df full_id_search =
     map (\<lambda>r. lower (remove_leading_zeros (base_id r)) = lower full_id_search) df"

definition name_match :: "'z data_frame \<Rightarrow> string \<Rightarrow> bool list" where
  "name_match df character_name =
     map (\<lambda>r. lower (str_cell (csv_row.name r)) = lower character_name) df"

definition race_match :: "'z data_frame \<Rightarrow> string \<Rightarrow> bool list" where
  "race_match df character_race =
     map (\<lambda>r. lower (str_cell (race r)) = lower character_race) df"

text \<open>\<^verbatim>\<open>race.split('<')[1].split('Race ')[0]\<close>.\<close>

definition character_race_of :: "string \<Rightarrow> exn + string" where
  "character_race_of race_str =
     (case index (split race_str ''<'') 1 of
        Inl e \<Rightarrow> Inl e
      | Inr rest \<Rightarrow> index (split rest ''Race '') 0)"

text \<open>The partial id of a cell for a length (the lambda applied to \<^verbatim>\<open>base_id\<close>), the
  series for one length, and the loop over the lengths 5, 4, 3, which stops as soon as
  the series of the previous length has a match.\<close>

definition partial_id_of :: "nat \<Rightarrow> cell \<Rightarrow> string" where
  "partial_id_of len x =
     (if notna x \<and> length (str_cell x) \<ge> len
      then remove_leading_zeros (Str (last_chars len (str_cell x)))
      else remove_leading_zeros (Str (str_cell x)))"

definition partial_id_series :: "'z data_frame \<Rightarrow> string \<Rightarrow> nat \<Rightarrow> bool list" where
  "partial_id_series df character_id len =
     map (\<lambda>r. lower (partial_id_of len (base_id r))
               = lower (lstrip_zeros (last_chars len character_id))) df"

fun partial_id_loop :: "'z data_frame \<Rightarrow> string \<Rightarrow> nat list \<Rightarrow> bool list \<Rightarrow> bool list" where
  "partial_id_loop df character_id [] partial_id_match = partial_id_match"
| "partial_id_loop df character_id (len # lens) partial_id_match =
     (if series_any partial_id_match then partial_id_match
      else partial_id_loop df character_id lens (partial_id_series df character_id len))"

definition partial_id_match :: "'z data_frame \<Rightarrow> string \<Rightarrow> bool list" where
  "partial_id_match df character_id =
     partial_id_loop df character_id [5, 4, 3] (replicate (length df) False)"

text \<open>\<^verbatim>\<open>try: body except IndexError: handler\<close>.\<close>

definition try_except_IndexError :: "exn + 'a \<Rightarrow> exn + 'a \<Rightarrow> exn + 'a" where
  "try_except_IndexError body handler =
     (case body of Inl IndexError \<Rightarrow> handler | Inl e \<Rightarrow> Inl e | Inr v \<Rightarrow> Inr v)"

text \<open>
  \<^verbatim>\<open>gameable.find_character_info\<close>. \<open>load_unnamed_npc\<close> is the abstract method a game
  implements; it returns a record of the same kind as a row. Reading the property
  \<^verbatim>\<open>character_df\<close> of an object whose table was never assigned raises
  \<^verbatim>\<open>AttributeError\<close>.
\<close>

definition find_character_info ::
  "'z gameable \<Rightarrow> (string \<Rightarrow> string \<Rightarrow> int \<Rightarrow> string \<Rightarrow> 'z csv_row_scheme) \<Rightarrow> string \<Rightarrow> string
     \<Rightarrow> string \<Rightarrow> int \<Rightarrow> string \<Rightarrow> exn + ('z csv_row_scheme \<times> bool)" where
  "find_character_info self load_unnamed_npc character_id character_name race_str gender
       ingame_voice_model =
     (let full_id_search = lstrip_zeros (last_chars 6 character_id)
      in case character_df self of
           None \<Rightarrow> Inl AttributeError
         | Some df \<Rightarrow>
             (let id_m = id_match df full_id_search;
                  name_m = name_match df character_name
              in case character_race_of race_str of
                   Inl e \<Rightarrow> Inl e
                 | Inr character_race \<Rightarrow>
                     (let race_m = race_match df character_race;
                          partial_m = partial_id_match df character_id;
                          found = (\<lambda>series. case first_record (df_loc df series) of
                                       Inl e \<Rightarrow> Inl e
                                     | Inr character_info \<Rightarrow> Inr (character_info, False))
                      in try_except_IndexError (found (series_and (series_and name_m id_m) race_m))
                        (try_except_IndexError (found (series_and name_m id_m))
                        (try_except_IndexError
                           (found (series_and (series_and name_m partial_m) race_m))
                        (try_except_IndexError (found (series_and name_m partial_m))
                        (try_except_IndexError (found (series_and name_m race_m))
                        (try_except_IndexError (found name_m)
                        (try_except_IndexError (found id_m)
                           (Inr (load_unnamed_npc character_name character_race gender
                                   ingame_voice_model, True)))))))))))"

subsection \<open>The cascade, as the specification words it\<close>

text \<open>
  The specification describes the resolver as an ordered cascade of match criteria on
  rows, the first criterion with any matching row winning and its first row being
  returned. These definitions follow that wording; the theorems compare them with
  \<open>find_character_info\<close> above.
\<close>

fun cascade :: "('r \<Rightarrow> bool) list \<Rightarrow> 'r list \<Rightarrow> 'r option" where
  "cascade [] rows = None"
| "cascade (tier # tiers) rows =
     (case filter tier rows of [] \<Rightarrow> cascade tiers rows | r # rs \<Rightarrow> Some r)"

definition row_name_matches :: "string \<Rightarrow> 'z csv_row_scheme \<Rightarrow> bool" where
  "row_name_matches character_name r =
     (lower (str_cell (csv_row.name r)) = lower character_name)"

definition row_race_matches :: "string \<Rightarrow> 'z csv_row_scheme \<Rightarrow> bool" where
  "row_race_matches character_race r = (lower (str_cell (race r)) = lower character_race)"

definition row_id_matches :: "string \<Rightarrow> 'z csv_row_scheme \<Rightarrow> bool" where
  "row_id_matches character_id r =
     (lower (remove_leading_zeros (base_id r))
        = lower (lstrip_zeros (last_chars 6 character_id)))"

definition row_partial_id_matches_at :: "nat \<Rightarrow> string \<Rightarrow> 'z csv_row_scheme \<Rightarrow> bool" where
  "row_partial_id_matches_at len character_id r =
     (lower (partial_id_of len (base_id r))
        = lower (lstrip_zeros (last_chars len character_id)))"

text \<open>The partial length in force: 5 if any row matches at 5, else 4 if any row
  matches at 4, else 3.\<close>

definition partial_length :: "'z data_frame \<Rightarrow> string \<Rightarrow> nat" where
  "partial_length df character_id =
     (if list_ex (row_partial_id_matches_at 5 character_id) df then 5
      else if list_ex (row_partial_id_matches_at 4 character_id) df then 4
      else 3)"

definition row_partial_id_matches :: "'z data_frame \<Rightarrow> string \<Rightarrow> 'z csv_row_scheme \<Rightarrow> bool" where
  "row_partial_id_matches df character_id r =
     row_partial_id_matches_at (partial_length df character_id) character_id r"

text \<open>The seven tiers in the order the code tries them; the last one is the full id
  alone.\<close>

definition tiers ::
  "'z data_frame \<Rightarrow> string \<Rightarrow> string \<Rightarrow> string \<Rightarrow> ('z csv_row_scheme \<Rightarrow> bool) list" where
  "tiers df character_id character_name character_race =
     [\<lambda>r. row_name_matches character_name r \<and> row_id_matches character_id r
            \<and> row_race_matches character_race r,
      \<lambda>r. row_name_matches character_name r \<and> row_id_matches character_id r,
      \<lambda>r. row_name_matches character_name r \<and> row_partial_id_matches df character_id r
            \<and> row_race_matches character_race r,
      \<lambda>r. row_name_matches character_name r \<and> row_partial_id_matches df character_id r,
      \<lambda>r. row_name_matches character_name r \<and> row_race_matches character_race r,
      \<lambda>r. row_name_matches character_name r,
      \<lambda>r. row_id_matches character_id r]"

section \<open>Characters and the roster\<close>

text \<open>
  Modelled from the spec: the classes \<^verbatim>\<open>Character\<close> (\<^verbatim>\<open>src/character_manager.py\<close>)
  and \<^verbatim>\<open>Characters\<close> (\<^verbatim>\<open>src/characters_manager.py\<close>) are imported by
  \<^verbatim>\<open>context.py\<close> but are not among the source files. The spec's data model gives a
  character its identity, relationship rank and flags, and describes the roster as an
  ordered, name-keyed collection with at most one entry per name that tracks the most
  recently added character.
\<close>

record Character =
  name :: string
  bio :: string
  relationship_rank :: int
  is_player_character :: bool
  is_in_combat :: bool
  is_enemy :: bool

record Characters =
  active_characters :: "Character list"
  last_added_character :: "Character option"

definition no_characters :: Characters where
  "no_characters = \<lparr>active_characters = [], last_added_character = None\<rparr>"

fun replace_by_name :: "Character \<Rightarrow> Character list \<Rightarrow> Character list" where
  "replace_by_name c [] = [c]"
| "replace_by_name c (d # ds) =
     (if name d = name c then c # ds else d # replace_by_name c ds)"

definition add_character :: "Character \<Rightarrow> Characters \<Rightarrow> Characters" where
  "add_character c cs =
     \<lparr>active_characters = replace_by_name c (active_characters cs),
      last_added_character = Some c\<rparr>"

definition get_all_characters :: "Characters \<Rightarrow> Character list" where
  "get_all_characters cs = active_characters cs"

definition get_all_names :: "Characters \<Rightarrow> string list" where
  "get_all_names cs = map name (active_characters cs)"

definition get_player_character :: "Characters \<Rightarrow> Character option" where
  "get_player_character cs = find is_player_character (active_characters cs)"

definition len_characters :: "Characters \<Rightarrow> nat" where
  "len_characters cs = length (active_characters cs)"

section \<open>The conversation context\<close>

subsection \<open>Trust tiers\<close>

text \<open>
  \<^verbatim>\<open>context.__get_trust\<close>. The conversation log is an external collaborator
  (\<^verbatim>\<open>conversation_log.load_conversation_log\<close>), taken as the parameter
  \<open>load_conversation_log\<close>; only the number of its entries is used. The variable
  \<^verbatim>\<open>trust\<close> starts as \<^verbatim>\<open>'a stranger'\<close> and keeps that value when no branch assigns it.
\<close>

definition get_trust :: "(Character \<Rightarrow> 'e list) \<Rightarrow> Character \<Rightarrow> string" where
  "get_trust load_conversation_log npc =
     (let trust_level = length (load_conversation_log npc);
          trust = ''a stranger''
      in if relationship_rank npc = 0 then
           (if trust_level < 1 then ''a stranger''
            else if trust_level < 10 then ''an acquaintance''
            else if trust_level < 50 then ''a friend''
            else if trust_level \<ge> 50 then ''a close friend''
            else trust)
         else if relationship_rank npc = 4 then ''a lover''
         else if relationship_rank npc > 0 then ''a friend''
         else if relationship_rank npc < 0 then ''an enemy''
         else trust)"

subsection \<open>State of a conversation\<close>

text \<open>
  Python lists are mutable objects that can be shared: \<^verbatim>\<open>update_context\<close> appends to
  the list object its caller passes in, and \<^verbatim>\<open>get_context_ingame_events\<close> hands out
  the context's own list object. Lists of event strings therefore live in a store,
  addressed by references; the context holds the reference of its event queue.
\<close>

type_synonym ref = nat
type_synonym store = "ref \<Rightarrow> string list"

definition list_extend :: "ref \<Rightarrow> ref \<Rightarrow> store \<Rightarrow> store" where
  "list_extend dst src s = s(dst := s dst @ s src)"

definition list_append :: "ref \<Rightarrow> string \<Rightarrow> store \<Rightarrow> store" where
  "list_append r x s = s(r := s r @ [x])"

definition list_clear :: "ref \<Rightarrow> store \<Rightarrow> store" where
  "list_clear r s = s(r := [])"

text \<open>
  The fields of \<^verbatim>\<open>context\<close> that hold data. The configuration, the LLM client, the
  memory subsystem and the injected token-budget predicate are collaborators; the
  functions below take what they use of them as parameters.
\<close>

record conv_context =
  prev_game_time :: "string \<times> string"
  npcs_in_conversation :: Characters
  language :: "string \<rightharpoonup> string"
  custom_context_values :: "string \<rightharpoonup> pyval"
  ingame_time :: int
  ingame_events :: ref
  have_actors_changed :: bool
  location :: string

text \<open>\<^verbatim>\<open>context.__init__\<close>: \<open>events\<close> is the reference of the new, empty event list.\<close>

definition init_context ::
  "string \<Rightarrow> (string \<rightharpoonup> string) \<Rightarrow> ref \<Rightarrow> store \<Rightarrow> store \<times> conv_context" where
  "init_context game lang events s =
     (s(events := []),
      \<lparr>prev_game_time = ('''', ''''),
       npcs_in_conversation = no_characters,
       language = lang,
       custom_context_values = Map.empty,
       ingame_time = 12,
       ingame_events = events,
       have_actors_changed = False,
       location = (if game = ''Fallout4'' \<or> game = ''Fallout4VR''
                   then ''the Commonwealth'' else ''Skyrim'')\<rparr>)"

definition get_context_ingame_events :: "conv_context \<Rightarrow> ref" where
  "get_context_ingame_events c = ingame_events c"

definition clear_context_ingame_events :: "store \<times> conv_context \<Rightarrow> store \<times> conv_context" where
  "clear_context_ingame_events sc = (list_clear (ingame_events (snd sc)) (fst sc), snd sc)"

subsection \<open>Updating location and time\<close>

text \<open>
  \<^verbatim>\<open>context.update_context\<close>, statement by statement. \<open>get_time_group\<close> is
  \<^verbatim>\<open>src.utils.get_time_group\<close>, which is not among the source files and is taken as a
  parameter. \<open>custom_ingame_events\<close> is the reference of the caller's list.
\<close>

definition update_context ::
  "(int \<Rightarrow> string) \<Rightarrow> store \<times> conv_context \<Rightarrow> string \<Rightarrow> int \<Rightarrow> ref
     \<Rightarrow> (string \<rightharpoonup> pyval) \<Rightarrow> store \<times> conv_context" where
  "update_context get_time_group sc loc in_game_time custom_ingame_events custom_values =
     (let s = fst sc; c = snd sc;
          s = list_extend (ingame_events c) custom_ingame_events s;
          c = c\<lparr>custom_context_values := custom_values\<rparr>;
          (s, c) =
            (if loc \<noteq> location c then
               (let c = c\<lparr>location := loc\<rparr>;
                    s = list_append custom_ingame_events
                          (''The location is now '' @ loc @ ''.'') s
                in (s, c))
             else (s, c));
          c = c\<lparr>ingame_time := in_game_time\<rparr>;
          current_time = (str_int in_game_time, get_time_group in_game_time)
      in if current_time \<noteq> prev_game_time c then
           (let c = c\<lparr>prev_game_time := current_time\<rparr>;
                s = list_append custom_ingame_events
                      (''The time is '' @ fst current_time @ '' '' @ snd current_time @ ''.'') s
            in (s, c))
         else (s, c))"

subsection \<open>Rendering the system prompt\<close>

text \<open>\<^verbatim>\<open>context.format_listing\<close>.\<close>

definition format_listing :: "string list \<Rightarrow> string" where
  "format_listing listing =
     (if length listing = 0 then ''''
      else if length listing = 1 then listing ! 0
      else join '', '' (butlast listing) @ '' and '' @ last listing)"

text \<open>\<^verbatim>\<open>context.get_characters_excluding_player\<close>: a new roster, filled in order with
  the actors that are not the player.\<close>

definition get_characters_excluding_player :: "conv_context \<Rightarrow> Characters" where
  "get_characters_excluding_player c =
     fold (\<lambda>actor new_characters.
             if \<not> is_player_character actor then add_character actor new_characters
             else new_characters)
          (get_all_characters (npcs_in_conversation c)) no_characters"

text \<open>\<^verbatim>\<open>context.__get_trusts\<close>, \<^verbatim>\<open>context.__get_character_names_as_text\<close> and
  \<^verbatim>\<open>context.__get_bios_text\<close>.\<close>

definition get_trusts :: "(Character \<Rightarrow> 'e list) \<Rightarrow> conv_context \<Rightarrow> string" where
  "get_trusts load_conversation_log c =
     format_listing
       (map (\<lambda>npc. get_trust load_conversation_log npc @ '' to '' @ name npc)
            (get_all_characters (get_characters_excluding_player c)))"

definition get_character_names_as_text :: "conv_context \<Rightarrow> bool \<Rightarrow> string" where
  "get_character_names_as_text c should_include_player =
     format_listing
       (if should_include_player then get_all_names (npcs_in_conversation c)
        else get_all_names (get_characters_excluding_player c))"

definition get_bios_text :: "conv_context \<Rightarrow> string" where
  "get_bios_text c =
     join [CHR 0x0A]
       (map (\<lambda>character.
               if len_characters (npcs_in_conversation c) = 1 then bio character
               else name character @ '': '' @ bio character)
            (get_all_characters (get_characters_excluding_player c)))"

text \<open>
  The collaborators of \<^verbatim>\<open>generate_system_message\<close>: the injected predicate
  \<^verbatim>\<open>is_prompt_too_long(text, fraction)\<close>, \<^verbatim>\<open>get_time_group\<close>, the memory subsystem's
  \<^verbatim>\<open>get_prompt_text\<close> and the conversation log. Python's built-in \<^verbatim>\<open>str.format\<close> is
  taken as the collaborator \<open>str_format\<close> as well: it gets the template and the keyword
  arguments and returns the filled text or the exception it raises. The theorems on
  \<open>generate_system_message\<close> hold for whatever these functions compute.
\<close>

record 'e collaborators =
  str_format :: "string \<Rightarrow> (string \<times> pyval) list \<Rightarrow> exn + string"
  is_prompt_too_long :: "string \<Rightarrow> rat \<Rightarrow> bool"
  time_group_of :: "int \<Rightarrow> string"
  get_prompt_text :: "Characters \<Rightarrow> string"
  load_conversation_log :: "Character \<Rightarrow> 'e list"

definition TOKEN_LIMIT_PERCENT :: rat where
  "TOKEN_LIMIT_PERCENT = 45 / 100"

text \<open>The keyword arguments of the call \<^verbatim>\<open>prompt.format(...)\<close>, in the order written;
  \<open>content\<close> is the pair (bios, conversation summaries) of the current attempt.\<close>

definition format_arguments ::
  "'e collaborators \<Rightarrow> conv_context \<Rightarrow> string \<Rightarrow> string \<Rightarrow> string \<times> string
     \<Rightarrow> (string \<times> pyval) list" where
  "format_arguments env c name_of_last_added lang content =
     [(''player_name'',
         PyStr (case get_player_character (npcs_in_conversation c) of
                  Some p \<Rightarrow> name p | None \<Rightarrow> '''')),
      (''name'', PyStr name_of_last_added),
      (''names'', PyStr (get_character_names_as_text c False)),
      (''names_w_player'', PyStr (get_character_names_as_text c True)),
      (''bio'', PyStr (fst content)),
      (''bios'', PyStr (fst content)),
      (''trust'', PyStr (get_trusts (load_conversation_log env) c)),
      (''location'', PyStr (location c)),
      (''time'', PyInt (ingame_time c)),
      (''time_group'', PyStr (time_group_of env (ingame_time c))),
      (''language'', PyStr lang),
      (''conversation_summary'', PyStr (snd content)),
      (''conversation_summaries'', PyStr (snd content))]"

text \<open>
  One rendering. The local variable \<^verbatim>\<open>name\<close> is assigned only when the roster has a
  last-added character; reading it unassigned raises \<^verbatim>\<open>UnboundLocalError\<close>. The
  language is looked up with \<^verbatim>\<open>self.__language['language']\<close>, a \<^verbatim>\<open>KeyError\<close> when
  the key is missing. Arguments are evaluated in the order written, so the unbound
  name is reported first.
\<close>

definition render_prompt ::
  "'e collaborators \<Rightarrow> conv_context \<Rightarrow> string \<Rightarrow> string \<times> string \<Rightarrow> exn + string" where
  "render_prompt env c prompt content =
     (case last_added_character (npcs_in_conversation c) of
        None \<Rightarrow> Inl (UnboundLocalError ''name'')
      | Some ch \<Rightarrow>
          (case language c ''language'' of
             None \<Rightarrow> Inl (KeyError ''language'')
           | Some lang \<Rightarrow> str_format env prompt (format_arguments env c (name ch) lang content)))"

text \<open>
  The loop over \<^verbatim>\<open>removal_content\<close>. \<open>tested\<close> collects the calls made to the
  too-long predicate (the text and the fraction passed), in order; it is returned with
  the result so that the attempts made can be stated. An exception of a rendering ends
  the function. After the loop the unfilled prompt is returned.
\<close>

fun render_attempts ::
  "(string \<Rightarrow> rat \<Rightarrow> bool) \<Rightarrow> (string \<times> string \<Rightarrow> exn + string) \<Rightarrow> string
     \<Rightarrow> (string \<times> string) list \<Rightarrow> (string \<times> rat) list
     \<Rightarrow> (string \<times> rat) list \<times> (exn + string)" where
  "render_attempts too_long render prompt [] tested = (tested, Inr prompt)"
| "render_attempts too_long render prompt (content # rest) tested =
     (case render content of
        Inl e \<Rightarrow> (tested, Inl e)
      | Inr result \<Rightarrow>
          if \<not> too_long result TOKEN_LIMIT_PERCENT
          then (tested @ [(result, TOKEN_LIMIT_PERCENT)], Inr result)
          else render_attempts too_long render prompt rest
                 (tested @ [(result, TOKEN_LIMIT_PERCENT)]))"

text \<open>\<^verbatim>\<open>context.generate_system_message\<close>; the log lines are not modelled.\<close>

definition generate_system_message ::
  "'e collaborators \<Rightarrow> conv_context \<Rightarrow> string \<Rightarrow> (string \<times> rat) list \<times> (exn + string)" where
  "generate_system_message env c prompt =
     (let bios = get_bios_text c;
          conversation_summaries = get_prompt_text env (get_characters_excluding_player c);
          removal_content = [(bios, conversation_summaries), (bios, ''''), ('''', '''')]
      in render_attempts (is_prompt_too_long env) (render_prompt env c prompt) prompt
           removal_content [])"

subsection \<open>\<^verbatim>\<open>str.format\<close> on plain templates\<close>

text \<open>
  Python's \<^verbatim>\<open>str.format\<close> on the templates whose replacement fields are plain keyword
  names: \<^verbatim>\<open>{{\<close> and \<^verbatim>\<open>}}\<close> are literal braces, \<^verbatim>\<open>{field}\<close> is replaced by the
  string of the keyword argument \<open>field\<close>. A lone brace is a \<^verbatim>\<open>ValueError\<close>, an
  unknown keyword a \<^verbatim>\<open>KeyError\<close>, an empty or numeric field (a positional argument,
  of which the call passes none) an \<^verbatim>\<open>IndexError\<close>. Fields with a conversion, a format
  specification, an attribute or an index are outside this fragment and reported as
  \<open>OutsideFragment\<close>; the sample templates below do not use them.
\<close>

definition lookup_field :: "(string \<times> pyval) list \<Rightarrow> string \<Rightarrow> exn + string" where
  "lookup_field kwargs field =
     (if list_ex (\<lambda>x. x \<in> set ''.[!:{'') field then Inl OutsideFragment
      else if list_all (\<lambda>x. x \<in> set ''0123456789'') field then Inl IndexError
      else case map_of kwargs field of
             None \<Rightarrow> Inl (KeyError field)
           | Some v \<Rightarrow> Inr (py_str v))"

definition on_result :: "(string \<Rightarrow> string) \<Rightarrow> exn + string \<Rightarrow> exn + string" where
  "on_result f r = (case r of Inl e \<Rightarrow> Inl e | Inr s \<Rightarrow> Inr (f s))"

function simple_format :: "string \<Rightarrow> (string \<times> pyval) list \<Rightarrow> exn + string" where
  "simple_format [] kwargs = Inr []"
| "simple_format (c # cs) kwargs =
     (if c = CHR ''{'' then
        (case cs of
           [] \<Rightarrow> Inl ValueError
         | d # ds \<Rightarrow>
             if d = CHR ''{'' then on_result ((#) CHR ''{'') (simple_format ds kwargs)
             else (case dropWhile (\<lambda>x. x \<noteq> CHR ''}'') cs of
                     [] \<Rightarrow> Inl ValueError
                   | b # rest \<Rightarrow>
                       (case lookup_field kwargs (takeWhile (\<lambda>x. x \<noteq> CHR ''}'') cs) of
                          Inl e \<Rightarrow> Inl e
                        | Inr v \<Rightarrow> on_result ((@) v) (simple_format rest kwargs))))
      else if c = CHR ''}'' then
        (case cs of
           [] \<Rightarrow> Inl ValueError
         | d # ds \<Rightarrow>
             if d = CHR ''}'' then on_result ((#) CHR ''}'') (simple_format ds kwargs)
             else Inl ValueError)
      else on_result ((#) c) (simple_format cs kwargs))"
  by pat_completeness auto
termination
proof (relation "measure (\<lambda>(s, kwargs). length s)")
  fix c :: char and cs :: string and kwargs :: "(string \<times> pyval) list" and b rest
  assume "dropWhile (\<lambda>x. x \<noteq> CHR ''}'') cs = b # rest"
  then have "length rest < length (dropWhile (\<lambda>x. x \<noteq> CHR ''}'') cs)" by simp
  also have "\<dots> \<le> length cs" by (rule length_dropWhile_le)
  finally show "((rest, kwargs), c # cs, kwargs) \<in> measure (\<lambda>(s, kwargs). length s)" by simp
qed auto

text \<open>
  \<open>simple_format\<close> extended to the templates that start with the indexed field
  \<^verbatim>\<open>{bios[0]}\<close> and go on as a plain template: the field is replaced by the first
  character of the keyword argument \<open>bios\<close>, and raises \<^verbatim>\<open>IndexError\<close> when that
  string is empty (\<^verbatim>\<open>TypeError\<close> when the argument is an integer). The field is
  formatted before the rest of the template is looked at.
\<close>

definition format_with_index :: "string \<Rightarrow> (string \<times> pyval) list \<Rightarrow> exn + string" where
  "format_with_index template kwargs =
     (if take 9 template = ''{bios[0]}'' then
        (case map_of kwargs ''bios'' of
           None \<Rightarrow> Inl (KeyError ''bios'')
         | Some (PyInt i) \<Rightarrow> Inl TypeError
         | Some (PyStr s) \<Rightarrow>
             (case s of
                [] \<Rightarrow> Inl IndexError
              | x # xs \<Rightarrow> on_result ((#) x) (simple_format (drop 9 template) kwargs)))
      else simple_format template kwargs)"

text \<open>Substring test, used to ask whether a value can be read off an event string.\<close>

fun contains :: "string \<Rightarrow> string \<Rightarrow> bool" where
  "contains [] sub = (sub = [])"
| "contains (c # cs) sub = (take (length sub) (c # cs) = sub \<or> contains cs sub)"

section \<open>Sample data\<close>

text \<open>Concrete values at which the theorems below are instantiated.\<close>

text \<open>
  Modelled from the spec: \<^verbatim>\<open>get_time_group\<close> (\<^verbatim>\<open>src/utils.py\<close>) is not among the
  source files; the spec only calls it a coarse bucket of the numeric hour (morning,
  afternoon, evening, night). \<open>sample_time_group\<close> is one such bucketing. No theorem
  depends on its cut-offs: each is proved for every time-group function.
\<close>

definition sample_time_group :: "int \<Rightarrow> string" where
  "sample_time_group t =
     (if t < 6 then ''at night'' else if t < 12 then ''in the morning''
      else if t < 18 then ''in the afternoon'' else if t < 22 then ''in the evening''
      else ''at night'')"

definition lydia :: Character where
  "lydia = \<lparr>name = ''Lydia'', bio = ''Housecarl of Whiterun.'', relationship_rank = 0,
            is_player_character = False, is_in_combat = False, is_enemy = False\<rparr>"

definition sample_log :: "nat \<Rightarrow> Character \<Rightarrow> unit list" where
  "sample_log n npc = replicate n ()"

definition skyrim_start :: "store \<times> conv_context" where
  "skyrim_start = init_context ''Skyrim'' [''language'' \<mapsto> ''English''] 0 (\<lambda>r. [])"

text \<open>
  A sample set of collaborators: \<open>simple_format\<close> as \<^verbatim>\<open>str.format\<close>, a too-long
  predicate that counts characters against \<open>limit\<close> times the fraction, a fixed
  summary text and an empty conversation log.
\<close>

definition sample_env :: "nat \<Rightarrow> unit collaborators" where
  "sample_env limit =
     \<lparr>str_format = simple_format,
      is_prompt_too_long = (\<lambda>txt fraction. of_nat (length txt) > of_nat limit * fraction),
      time_group_of = sample_time_group,
      get_prompt_text = (\<lambda>cs. ''Lydia met you before.''),
      load_conversation_log = sample_log 0\<rparr>"

definition indexing_env :: "nat \<Rightarrow> unit collaborators" where
  "indexing_env limit = (sample_env limit)\<lparr>str_format := format_with_index\<rparr>"

definition with_lydia :: conv_context where
  "with_lydia = (snd skyrim_start)\<lparr>npcs_in_conversation := add_character lydia no_characters\<rparr>"

definition lydia_row :: csv_row where
  "lydia_row = \<lparr>base_id = Str ''000A2C94'', csv_row.name = Str ''Lydia'', race = Str ''Nord'',
                voice_model = Str ''FemaleEvenToned''\<rparr>"

definition sample_unnamed_npc :: "string \<Rightarrow> string \<Rightarrow> int \<Rightarrow> string \<Rightarrow> csv_row" where
  "sample_unnamed_npc character_name character_race gender ingame_voice_model =
     \<lparr>base_id = NaN, csv_row.name = Str character_name, race = Str character_race,
      voice_model = Str ingame_voice_model\<rparr>"

definition namesake_row :: csv_row where
  "namesake_row = \<lparr>base_id = Str ''00013BAB'', csv_row.name = Str ''Lydia'',
                   race = Str ''Breton'', voice_model = Str ''FemaleYoungEager''\<rparr>"

definition sample_game :: "unit gameable" where
  "sample_game = \<lparr>character_df = Some [namesake_row, lydia_row],
                  conversation_folder_path = ''data/Skyrim/conversations''\<rparr>"

section \<open>Properties of the conversation context\<close>

text \<open>
  C8. The trust tier depends only on the relationship rank and on the number of
  conversation-log entries, with exact integer cut-offs: at rank 0 it is a stranger for
  fewer than 1 entry, an acquaintance for 1 to 9, a friend for 10 to 49 and a close
  friend from 50 on; at ranks 1 to 3 it is a friend whatever the count; at rank 4 a
  lover; at every negative rank an enemy.
\<close>

theorem get_trust_tiers:
  fixes lg :: "Character \<Rightarrow> 'e list"
  shows "(relationship_rank a = relationship_rank b \<and> length (lg a) = length (lg b)
            \<longrightarrow> get_trust lg a = get_trust lg b)
       \<and> (relationship_rank a = 0 \<and> length (lg a) < 1 \<longrightarrow> get_trust lg a = ''a stranger'')
       \<and> (relationship_rank a = 0 \<and> 1 \<le> length (lg a) \<and> length (lg a) \<le> 9
            \<longrightarrow> get_trust lg a = ''an acquaintance'')
       \<and> (relationship_rank a = 0 \<and> 10 \<le> length (lg a) \<and> length (lg a) \<le> 49
            \<longrightarrow> get_trust lg a = ''a friend'')
       \<and> (relationship_rank a = 0 \<and> 50 \<le> length (lg a) \<longrightarrow> get_trust lg a = ''a close friend'')
       \<and> (1 \<le> relationship_rank a \<and> relationship_rank a \<le> 3 \<longrightarrow> get_trust lg a = ''a friend'')
       \<and> (relationship_rank a = 4 \<longrightarrow> get_trust lg a = ''a lover'')
       \<and> (relationship_rank a < 0 \<longrightarrow> get_trust lg a = ''an enemy'')"
  by (simp add: get_trust_def Let_def)

theorem get_trust_tiers_witness:
  "get_trust (sample_log 7) lydia = get_trust (sample_log 7) (lydia\<lparr>name := ''Uthgerd''\<rparr>)
   \<and> get_trust (sample_log 0) lydia = ''a stranger''
   \<and> get_trust (sample_log 9) lydia = ''an acquaintance''
   \<and> get_trust (sample_log 10) lydia = ''a friend''
   \<and> get_trust (sample_log 50) lydia = ''a close friend''
   \<and> get_trust (sample_log 0) (lydia\<lparr>relationship_rank := 3\<rparr>) = ''a friend''
   \<and> get_trust (sample_log 0) (lydia\<lparr>relationship_rank := 4\<rparr>) = ''a lover''
   \<and> get_trust (sample_log 99) (lydia\<lparr>relationship_rank := - 1\<rparr>) = ''an enemy''"
proof -
  have same: "get_trust (sample_log 7) lydia = get_trust (sample_log 7) (lydia\<lparr>name := ''Uthgerd''\<rparr>)"
    using get_trust_tiers [of lydia "lydia\<lparr>name := ''Uthgerd''\<rparr>" "sample_log 7"]
    by (simp add: sample_log_def)
  have r0: "get_trust (sample_log 0) lydia = ''a stranger''"
    using get_trust_tiers [of lydia lydia "sample_log 0"]
    by (simp add: sample_log_def lydia_def)
  have r1: "get_trust (sample_log 9) lydia = ''an acquaintance''"
    using get_trust_tiers [of lydia lydia "sample_log 9"]
    by (simp add: sample_log_def lydia_def)
  have r2: "get_trust (sample_log 10) lydia = ''a friend''"
    using get_trust_tiers [of lydia lydia "sample_log 10"]
    by (simp add: sample_log_def lydia_def)
  have r3: "get_trust (sample_log 50) lydia = ''a close friend''"
    using get_trust_tiers [of lydia lydia "sample_log 50"]
    by (simp add: sample_log_def lydia_def)
  have r4: "get_trust (sample_log 0) (lydia\<lparr>relationship_rank := 3\<rparr>) = ''a friend''"
    using get_trust_tiers [of "lydia\<lparr>relationship_rank := 3\<rparr>" lydia "sample_log 0"]
    by simp
  have r5: "get_trust (sample_log 0) (lydia\<lparr>relationship_rank := 4\<rparr>) = ''a lover''"
    using get_trust_tiers [of "lydia\<lparr>relationship_rank := 4\<rparr>" lydia "sample_log 0"]
    by simp
  have r6: "get_trust (sample_log 99) (lydia\<lparr>relationship_rank := - 1\<rparr>) = ''an enemy''"
    using get_trust_tiers [of "lydia\<lparr>relationship_rank := - 1\<rparr>" lydia "sample_log 99"]
    by simp
  from same r0 r1 r2 r3 r4 r5 r6 show ?thesis by blast
qed

subsection \<open>The effect of \<open>update_context\<close>\<close>

text \<open>
  The net effect of one call on the store and on the context's fields. The caller's
  list first receives nothing (it is only read by the \<^verbatim>\<open>extend\<close>, unless it is the
  queue itself), then the location event, then the time event.
\<close>

lemma update_context_store:
  "fst (update_context g (s, c) loc t r cv) =
     (let s1 = list_extend (ingame_events c) r s in
      s1(r := s1 r
           @ (if loc \<noteq> location c then [''The location is now '' @ loc @ ''.''] else [])
           @ (if (str_int t, g t) \<noteq> prev_game_time c
              then [''The time is '' @ str_int t @ '' '' @ g t @ ''.''] else [])))"
  by (auto simp: update_context_def Let_def list_append_def fun_eq_iff)

lemma update_context_fields:
  "snd (update_context g (s, c) loc t r cv) =
     c\<lparr>custom_context_values := cv, location := loc, ingame_time := t,
        prev_game_time := (str_int t, g t)\<rparr>"
  by (auto simp: update_context_def Let_def)

text \<open>
  C4, as amended. For every call to \<open>update_context\<close> with a location different from
  the stored one, the stored location becomes the new location, and the event appended
  to the caller's list (after the list's previous content, before any time event) is
  \<^verbatim>\<open>The location is now <new location>.\<close>: the string is built from the new
  location only.
\<close>

theorem update_context_location_event:
  assumes "loc \<noteq> location c"
  shows "location (snd (update_context g (s, c) loc t r cv)) = loc
       \<and> fst (update_context g (s, c) loc t r cv) r =
           (if r = ingame_events c then s r @ s r else s r)
           @ [''The location is now '' @ loc @ ''.'']
           @ (if (str_int t, g t) \<noteq> prev_game_time c
              then [''The time is '' @ str_int t @ '' '' @ g t @ ''.''] else [])"
  using assms
  by (simp add: update_context_store update_context_fields list_extend_def Let_def)

theorem update_context_location_event_witness:
  "location (snd (update_context sample_time_group skyrim_start ''Whiterun'' 12 1 Map.empty))
     = ''Whiterun''
   \<and> fst (update_context sample_time_group skyrim_start ''Whiterun'' 12 1 Map.empty) 1 =
       [''The location is now Whiterun.'', ''The time is 12 in the afternoon.'']"
proof -
  have ne: "''Whiterun'' \<noteq> location (snd skyrim_start)"
    by (simp add: skyrim_start_def init_context_def)
  show ?thesis
    using update_context_location_event
      [OF ne, of sample_time_group "fst skyrim_start" 12 1 Map.empty]
    by (simp add: skyrim_start_def init_context_def sample_time_group_def str_int_def)
qed

text \<open>
  C4 as stated fails: a context whose stored location is \<^verbatim>\<open>Skyrim\<close> is updated to
  \<^verbatim>\<open>Whiterun\<close> with a fresh, empty caller list. The strings appended by the call do
  not contain the old location.
\<close>

theorem update_context_old_location_counterexample:
  "location (snd skyrim_start) = ''Skyrim''
   \<and> fst (update_context sample_time_group skyrim_start ''Whiterun'' 12 1 Map.empty) 1 =
       [''The location is now Whiterun.'', ''The time is 12 in the afternoon.'']
   \<and> \<not> contains ''The location is now Whiterun.'' ''Skyrim''
   \<and> \<not> contains ''The time is 12 in the afternoon.'' ''Skyrim''"
  by (simp add: skyrim_start_def init_context_def update_context_def list_extend_def
        list_append_def sample_time_group_def str_int_def Let_def)

text \<open>
  C9. When \<open>update_context\<close> is called twice in a row with the same location and the
  same in-game time, the caller's list of the second call holds, after the call, what
  it held right after the copy into the queue: no location event and no time event is
  appended. More generally every call records the pair (hour, time group), and a time
  event is appended exactly when that pair differs from the recorded one.
\<close>

theorem update_context_twice_same:
  "fst (update_context g (update_context g (s, c) loc t r1 cv1) loc t r2 cv2) r2 =
     (if r2 = ingame_events c
      then fst (update_context g (s, c) loc t r1 cv1) r2
           @ fst (update_context g (s, c) loc t r1 cv1) r2
      else fst (update_context g (s, c) loc t r1 cv1) r2)
   \<and> prev_game_time (snd (update_context g (s, c) loc t r cv)) = (str_int t, g t)
   \<and> ((str_int t, g t) = prev_game_time c \<longrightarrow>
        fst (update_context g (s, c) loc t r cv) r =
          (if r = ingame_events c then s r @ s r else s r)
          @ (if loc \<noteq> location c then [''The location is now '' @ loc @ ''.''] else []))
   \<and> ((str_int t, g t) \<noteq> prev_game_time c \<longrightarrow>
        fst (update_context g (s, c) loc t r cv) r =
          (if r = ingame_events c then s r @ s r else s r)
          @ (if loc \<noteq> location c then [''The location is now '' @ loc @ ''.''] else [])
          @ [''The time is '' @ str_int t @ '' '' @ g t @ ''.''])"
proof -
  obtain s1 c1 where one: "update_context g (s, c) loc t r1 cv1 = (s1, c1)"
    by (cases "update_context g (s, c) loc t r1 cv1")
  have c1: "c1 = c\<lparr>custom_context_values := cv1, location := loc, ingame_time := t,
        prev_game_time := (str_int t, g t)\<rparr>"
    using update_context_fields [of g s c loc t r1 cv1] one by simp
  have "fst (update_context g (s1, c1) loc t r2 cv2) r2 =
          (if r2 = ingame_events c then s1 r2 @ s1 r2 else s1 r2)"
    by (simp add: update_context_store c1 list_extend_def Let_def)
  with one show ?thesis
    by (simp add: update_context_store update_context_fields list_extend_def Let_def)
qed

theorem update_context_twice_same_witness:
  "fst (update_context sample_time_group skyrim_start ''Skyrim'' 12 1 Map.empty) 1 =
     [''The time is 12 in the afternoon.'']
   \<and> fst (update_context sample_time_group
            (update_context sample_time_group skyrim_start ''Skyrim'' 12 1 Map.empty)
            ''Skyrim'' 12 2 Map.empty) 2 = []"
proof -
  let ?u = "update_context sample_time_group skyrim_start ''Skyrim'' 12 1 Map.empty"
  have ne: "(str_int 12, sample_time_group 12) \<noteq> prev_game_time (snd skyrim_start)"
    by (simp add: skyrim_start_def init_context_def str_int_def)
  have first: "fst ?u 1 = [''The time is 12 in the afternoon.'']"
    using ne update_context_twice_same
      [of sample_time_group "fst skyrim_start" "snd skyrim_start"
          "''Skyrim''" 12 1 Map.empty 1 Map.empty 1 Map.empty]
    by (simp add: skyrim_start_def init_context_def str_int_def sample_time_group_def)
  have eq: "(str_int 12, sample_time_group 12) = prev_game_time (snd ?u)"
    using update_context_twice_same
      [of sample_time_group "fst skyrim_start" "snd skyrim_start"
          "''Skyrim''" 12 1 Map.empty 1 Map.empty 1 Map.empty]
    by simp
  have second: "fst (update_context sample_time_group ?u ''Skyrim'' 12 2 Map.empty) 2 = []"
  proof -
    have u: "?u = (fst ?u, snd ?u)" by simp
    have q: "ingame_events (snd ?u) = 0" "location (snd ?u) = ''Skyrim''" "fst ?u 2 = []"
      by (simp_all add: update_context_store update_context_fields skyrim_start_def
            init_context_def list_extend_def Let_def)
    from eq have
      "fst (update_context sample_time_group (fst ?u, snd ?u) ''Skyrim'' 12 2 Map.empty) 2 =
          (if 2 = ingame_events (snd ?u) then fst ?u 2 @ fst ?u 2 else fst ?u 2)
          @ (if ''Skyrim'' \<noteq> location (snd ?u) then [''The location is now '' @ ''Skyrim'' @ ''.''] else [])"
      using update_context_twice_same
        [of sample_time_group "fst ?u" "snd ?u" "''Skyrim''" 12 2 Map.empty 2 Map.empty 2 Map.empty]
      by blast
    then show ?thesis unfolding q by simp
  qed
  from first second show ?thesis by simp
qed

text \<open>
  C10, as amended. \<open>update_context\<close> first copies the caller's list into the event
  queue and only afterwards appends the location and time events to the caller's list
  object. When that object is not the queue itself (a fresh list, say), the queue
  receives exactly the list's previous content and none of those events, which sit at
  the end of the caller's list. When the caller passes the queue object itself, the
  events land in the queue.
\<close>

theorem update_context_events_go_to_argument:
  "(r \<noteq> ingame_events c \<longrightarrow>
      fst (update_context g (s, c) loc t r cv)
          (get_context_ingame_events (snd (update_context g (s, c) loc t r cv)))
        = s (ingame_events c) @ s r
    \<and> fst (update_context g (s, c) loc t r cv) r =
        s r
        @ (if loc \<noteq> location c then [''The location is now '' @ loc @ ''.''] else [])
        @ (if (str_int t, g t) \<noteq> prev_game_time c
           then [''The time is '' @ str_int t @ '' '' @ g t @ ''.''] else []))
   \<and> (r = ingame_events c \<longrightarrow>
      fst (update_context g (s, c) loc t r cv)
          (get_context_ingame_events (snd (update_context g (s, c) loc t r cv)))
        = s r @ s r
        @ (if loc \<noteq> location c then [''The location is now '' @ loc @ ''.''] else [])
        @ (if (str_int t, g t) \<noteq> prev_game_time c
           then [''The time is '' @ str_int t @ '' '' @ g t @ ''.''] else []))"
  by (simp add: update_context_store update_context_fields get_context_ingame_events_def
        list_extend_def Let_def)

theorem update_context_events_go_to_argument_witness:
  "fst (update_context sample_time_group skyrim_start ''Whiterun'' 12 1 Map.empty)
     (get_context_ingame_events
        (snd (update_context sample_time_group skyrim_start ''Whiterun'' 12 1 Map.empty))) = []
   \<and> fst (update_context sample_time_group skyrim_start ''Whiterun'' 12 1 Map.empty) 1 =
       [''The location is now Whiterun.'', ''The time is 12 in the afternoon.'']
   \<and> fst (update_context sample_time_group skyrim_start ''Whiterun'' 12 0 Map.empty)
       (get_context_ingame_events
          (snd (update_context sample_time_group skyrim_start ''Whiterun'' 12 0 Map.empty))) =
       [''The location is now Whiterun.'', ''The time is 12 in the afternoon.'']"
proof -
  have q: "ingame_events (snd skyrim_start) = 0"
    by (simp add: skyrim_start_def init_context_def)
  have fresh:
    "fst (update_context sample_time_group skyrim_start ''Whiterun'' 12 1 Map.empty)
       (get_context_ingame_events
          (snd (update_context sample_time_group skyrim_start ''Whiterun'' 12 1 Map.empty))) = []
     \<and> fst (update_context sample_time_group skyrim_start ''Whiterun'' 12 1 Map.empty) 1 =
         [''The location is now Whiterun.'', ''The time is 12 in the afternoon.'']"
    using q update_context_events_go_to_argument
      [of 1 "snd skyrim_start" sample_time_group "fst skyrim_start" "''Whiterun''" 12 Map.empty]
    by (simp add: skyrim_start_def init_context_def str_int_def sample_time_group_def)
  have shared:
    "fst (update_context sample_time_group skyrim_start ''Whiterun'' 12 0 Map.empty)
       (get_context_ingame_events
          (snd (update_context sample_time_group skyrim_start ''Whiterun'' 12 0 Map.empty))) =
       [''The location is now Whiterun.'', ''The time is 12 in the afternoon.'']"
    using q update_context_events_go_to_argument
      [of 0 "snd skyrim_start" sample_time_group "fst skyrim_start" "''Whiterun''" 12 Map.empty]
    by (simp add: skyrim_start_def init_context_def str_int_def sample_time_group_def)
  from fresh shared show ?thesis by simp
qed

text \<open>
  C10 as stated fails when the caller passes the list object that
  \<open>get_context_ingame_events\<close> returns: the queue, empty before the call, then holds the
  location event and the time event of that same call.
\<close>

theorem update_context_shared_list_counterexample:
  "get_context_ingame_events (snd skyrim_start) = 0
   \<and> fst skyrim_start 0 = []
   \<and> fst (update_context sample_time_group skyrim_start ''Whiterun'' 12 0 Map.empty)
       (get_context_ingame_events
          (snd (update_context sample_time_group skyrim_start ''Whiterun'' 12 0 Map.empty))) =
       [''The location is now Whiterun.'', ''The time is 12 in the afternoon.'']"
  by (simp add: skyrim_start_def init_context_def update_context_def list_extend_def
        list_append_def sample_time_group_def str_int_def get_context_ingame_events_def Let_def)

subsection \<open>The attempts of \<open>generate_system_message\<close>\<close>

text \<open>
  When the three renderings succeed, the loop unrolls into at most three tests of the
  too-long predicate.
\<close>

lemma generate_system_message_unrolled:
  assumes "render_prompt env c prompt
             (get_bios_text c, get_prompt_text env (get_characters_excluding_player c)) = Inr t1"
    and "render_prompt env c prompt (get_bios_text c, '''') = Inr t2"
    and "render_prompt env c prompt ('''', '''') = Inr t3"
  shows "generate_system_message env c prompt =
     (if \<not> is_prompt_too_long env t1 TOKEN_LIMIT_PERCENT
      then ([(t1, TOKEN_LIMIT_PERCENT)], Inr t1)
      else if \<not> is_prompt_too_long env t2 TOKEN_LIMIT_PERCENT
      then ([(t1, TOKEN_LIMIT_PERCENT), (t2, TOKEN_LIMIT_PERCENT)], Inr t2)
      else if \<not> is_prompt_too_long env t3 TOKEN_LIMIT_PERCENT
      then ([(t1, TOKEN_LIMIT_PERCENT), (t2, TOKEN_LIMIT_PERCENT), (t3, TOKEN_LIMIT_PERCENT)],
            Inr t3)
      else ([(t1, TOKEN_LIMIT_PERCENT), (t2, TOKEN_LIMIT_PERCENT), (t3, TOKEN_LIMIT_PERCENT)],
            Inr prompt))"
  using assms by (simp add: generate_system_message_def Let_def)

text \<open>
  The loop in full, with no assumption on the renderings: each rendering is looked at
  only when the attempts before it were rendered and found too long, and a rendering
  that raises ends the function with the tests made so far.
\<close>

lemma generate_system_message_cases:
  "generate_system_message env c prompt =
     (case render_prompt env c prompt
             (get_bios_text c, get_prompt_text env (get_characters_excluding_player c)) of
        Inl e \<Rightarrow> ([], Inl e)
      | Inr t1 \<Rightarrow>
          if \<not> is_prompt_too_long env t1 TOKEN_LIMIT_PERCENT
          then ([(t1, TOKEN_LIMIT_PERCENT)], Inr t1)
          else (case render_prompt env c prompt (get_bios_text c, '''') of
                  Inl e \<Rightarrow> ([(t1, TOKEN_LIMIT_PERCENT)], Inl e)
                | Inr t2 \<Rightarrow>
                    if \<not> is_prompt_too_long env t2 TOKEN_LIMIT_PERCENT
                    then ([(t1, TOKEN_LIMIT_PERCENT), (t2, TOKEN_LIMIT_PERCENT)], Inr t2)
                    else (case render_prompt env c prompt ('''', '''') of
                            Inl e \<Rightarrow>
                              ([(t1, TOKEN_LIMIT_PERCENT), (t2, TOKEN_LIMIT_PERCENT)], Inl e)
                          | Inr t3 \<Rightarrow>
                              ([(t1, TOKEN_LIMIT_PERCENT), (t2, TOKEN_LIMIT_PERCENT),
                                (t3, TOKEN_LIMIT_PERCENT)],
                               if \<not> is_prompt_too_long env t3 TOKEN_LIMIT_PERCENT
                               then Inr t3 else Inr prompt))))"
  by (simp add: generate_system_message_def Let_def split: sum.split)

text \<open>The sample renderings, evaluated.\<close>

lemma sample_bios: "get_bios_text with_lydia = ''Housecarl of Whiterun.''"
  by code_simp

lemma sample_summaries:
  "get_prompt_text (sample_env n) (get_characters_excluding_player with_lydia) =
     ''Lydia met you before.''"
  by (simp add: sample_env_def)

lemma sample_render_full:
  "render_prompt (sample_env n) with_lydia ''{bios}{conversation_summaries}''
     (''Housecarl of Whiterun.'', ''Lydia met you before.'') =
   Inr ''Housecarl of Whiterun.Lydia met you before.''"
  by (simp add: render_prompt_def with_lydia_def skyrim_start_def init_context_def
        add_character_def no_characters_def lydia_def sample_env_def format_arguments_def
        lookup_field_def on_result_def py_str_def)

lemma sample_render_bios:
  "render_prompt (sample_env n) with_lydia ''{bios}{conversation_summaries}''
     (''Housecarl of Whiterun.'', '''') = Inr ''Housecarl of Whiterun.''"
  by (simp add: render_prompt_def with_lydia_def skyrim_start_def init_context_def
        add_character_def no_characters_def lydia_def sample_env_def format_arguments_def
        lookup_field_def on_result_def py_str_def)

lemma sample_render_bare:
  "render_prompt (sample_env n) with_lydia ''{bios}{conversation_summaries}'' ('''', '''') =
     Inr ''''"
  by (simp add: render_prompt_def with_lydia_def skyrim_start_def init_context_def
        add_character_def no_characters_def lydia_def sample_env_def format_arguments_def
        lookup_field_def on_result_def py_str_def)

lemma sample_too_long:
  "is_prompt_too_long (sample_env 60) ''Housecarl of Whiterun.Lydia met you before.''
     TOKEN_LIMIT_PERCENT"
  "\<not> is_prompt_too_long (sample_env 60) ''Housecarl of Whiterun.'' TOKEN_LIMIT_PERCENT"
  "\<not> is_prompt_too_long (sample_env 60) '''' TOKEN_LIMIT_PERCENT"
  "is_prompt_too_long (sample_env 40) ''Housecarl of Whiterun.'' TOKEN_LIMIT_PERCENT"
  "is_prompt_too_long (sample_env 40) ''Housecarl of Whiterun.Lydia met you before.''
     TOKEN_LIMIT_PERCENT"
  "\<not> is_prompt_too_long (sample_env 40) '''' TOKEN_LIMIT_PERCENT"
  by (simp_all add: sample_env_def TOKEN_LIMIT_PERCENT_def)

lemma sample_render_indexed:
  "render_prompt (indexing_env n) with_lydia ''{bios[0]}{conversation_summaries}''
     (''Housecarl of Whiterun.'', ''Lydia met you before.'') = Inr ''HLydia met you before.''"
  "render_prompt (indexing_env n) with_lydia ''{bios[0]}{conversation_summaries}''
     (''Housecarl of Whiterun.'', '''') = Inr ''H''"
  "render_prompt (indexing_env n) with_lydia ''{bios[0]}{conversation_summaries}'' ('''', '''') =
     Inl IndexError"
  by (simp_all add: render_prompt_def with_lydia_def skyrim_start_def init_context_def
        add_character_def no_characters_def lydia_def indexing_env_def sample_env_def
        format_arguments_def format_with_index_def lookup_field_def on_result_def py_str_def)

lemma sample_indexed_too_long:
  "is_prompt_too_long (indexing_env 40) ''HLydia met you before.'' TOKEN_LIMIT_PERCENT"
  "\<not> is_prompt_too_long (indexing_env 40) ''H'' TOKEN_LIMIT_PERCENT"
  by (simp_all add: indexing_env_def sample_env_def TOKEN_LIMIT_PERCENT_def)

lemma sample_indexed_summaries:
  "get_prompt_text (indexing_env n) (get_characters_excluding_player with_lydia) =
     ''Lydia met you before.''"
  by (simp add: indexing_env_def sample_env_def)

lemma sample_fits:
  "\<not> is_prompt_too_long (sample_env 100) ''Housecarl of Whiterun.Lydia met you before.''
       TOKEN_LIMIT_PERCENT"
  by (simp add: sample_env_def TOKEN_LIMIT_PERCENT_def)

lemma sample_render_greeting:
  "render_prompt (sample_env n) with_lydia ''You are {name}. {bios}''
     (''Housecarl of Whiterun.'', ''Lydia met you before.'') =
   Inr ''You are Lydia. Housecarl of Whiterun.''"
  "render_prompt (sample_env n) with_lydia ''You are {name}. {bios}''
     (''Housecarl of Whiterun.'', '''') = Inr ''You are Lydia. Housecarl of Whiterun.''"
  "render_prompt (sample_env n) with_lydia ''You are {name}. {bios}'' ('''', '''') =
     Inr ''You are Lydia. ''"
  by (simp_all add: render_prompt_def with_lydia_def skyrim_start_def init_context_def
        add_character_def no_characters_def lydia_def sample_env_def format_arguments_def
        lookup_field_def on_result_def py_str_def)

lemma sample_greeting_too_long:
  "is_prompt_too_long (sample_env 10) ''You are Lydia. Housecarl of Whiterun.''
     TOKEN_LIMIT_PERCENT"
  "is_prompt_too_long (sample_env 10) ''You are Lydia. '' TOKEN_LIMIT_PERCENT"
  by (simp_all add: sample_env_def TOKEN_LIMIT_PERCENT_def)

text \<open>
  C7. \<open>generate_system_message\<close> makes at most three attempts, on the contents
  (bios, summaries), (bios, no summaries), (neither) in this order. Each rendered text
  is tested with the injected predicate at the fraction \<open>TOKEN_LIMIT_PERCENT\<close>; the
  first text that passes is returned and nothing is rendered or tested after it: a
  branch below asks only for the renderings made up to the returned one, whatever the
  later contents would render to or raise. The first component of the result lists the
  tests made.
\<close>

theorem generate_system_message_attempts:
  "(render_prompt env c prompt
      (get_bios_text c, get_prompt_text env (get_characters_excluding_player c)) = Inr t1
    \<and> \<not> is_prompt_too_long env t1 TOKEN_LIMIT_PERCENT \<longrightarrow>
    generate_system_message env c prompt = ([(t1, TOKEN_LIMIT_PERCENT)], Inr t1))
   \<and> (render_prompt env c prompt
        (get_bios_text c, get_prompt_text env (get_characters_excluding_player c)) = Inr t1
      \<and> is_prompt_too_long env t1 TOKEN_LIMIT_PERCENT
      \<and> render_prompt env c prompt (get_bios_text c, '''') = Inr t2
      \<and> \<not> is_prompt_too_long env t2 TOKEN_LIMIT_PERCENT \<longrightarrow>
      generate_system_message env c prompt =
        ([(t1, TOKEN_LIMIT_PERCENT), (t2, TOKEN_LIMIT_PERCENT)], Inr t2))
   \<and> (render_prompt env c prompt
        (get_bios_text c, get_prompt_text env (get_characters_excluding_player c)) = Inr t1
      \<and> is_prompt_too_long env t1 TOKEN_LIMIT_PERCENT
      \<and> render_prompt env c prompt (get_bios_text c, '''') = Inr t2
      \<and> is_prompt_too_long env t2 TOKEN_LIMIT_PERCENT
      \<and> render_prompt env c prompt ('''', '''') = Inr t3 \<longrightarrow>
      generate_system_message env c prompt =
        ([(t1, TOKEN_LIMIT_PERCENT), (t2, TOKEN_LIMIT_PERCENT), (t3, TOKEN_LIMIT_PERCENT)],
         if \<not> is_prompt_too_long env t3 TOKEN_LIMIT_PERCENT then Inr t3 else Inr prompt))
   \<and> length (fst (generate_system_message env c prompt)) \<le> 3
   \<and> map snd (fst (generate_system_message env c prompt)) =
       replicate (length (fst (generate_system_message env c prompt))) TOKEN_LIMIT_PERCENT
   \<and> TOKEN_LIMIT_PERCENT = 45 / 100"
proof -
  have bounded: "length (fst (generate_system_message env c prompt)) \<le> 3"
    by (simp add: generate_system_message_cases split: sum.split)
  have fraction: "map snd (fst (generate_system_message env c prompt)) =
       replicate (length (fst (generate_system_message env c prompt))) TOKEN_LIMIT_PERCENT"
    by (simp add: generate_system_message_cases split: sum.split)
  from bounded fraction show ?thesis
    by (simp add: generate_system_message_cases TOKEN_LIMIT_PERCENT_def)
qed

theorem generate_system_message_attempts_witness:
  "generate_system_message (sample_env 100) with_lydia ''{bios}{conversation_summaries}'' =
     ([(''Housecarl of Whiterun.Lydia met you before.'', TOKEN_LIMIT_PERCENT)],
      Inr ''Housecarl of Whiterun.Lydia met you before.'')
   \<and> generate_system_message (sample_env 60) with_lydia ''{bios}{conversation_summaries}'' =
       ([(''Housecarl of Whiterun.Lydia met you before.'', TOKEN_LIMIT_PERCENT),
         (''Housecarl of Whiterun.'', TOKEN_LIMIT_PERCENT)],
        Inr ''Housecarl of Whiterun.'')
   \<and> generate_system_message (sample_env 40) with_lydia ''{bios}{conversation_summaries}'' =
       ([(''Housecarl of Whiterun.Lydia met you before.'', TOKEN_LIMIT_PERCENT),
         (''Housecarl of Whiterun.'', TOKEN_LIMIT_PERCENT),
         ('''', TOKEN_LIMIT_PERCENT)],
        Inr '''')
   \<and> generate_system_message (sample_env 10) with_lydia ''You are {name}. {bios}'' =
       ([(''You are Lydia. Housecarl of Whiterun.'', TOKEN_LIMIT_PERCENT),
         (''You are Lydia. Housecarl of Whiterun.'', TOKEN_LIMIT_PERCENT),
         (''You are Lydia. '', TOKEN_LIMIT_PERCENT)],
        Inr ''You are {name}. {bios}'')
   \<and> render_prompt (indexing_env 40) with_lydia ''{bios[0]}{conversation_summaries}''
       ('''', '''') = Inl IndexError
   \<and> generate_system_message (indexing_env 40) with_lydia ''{bios[0]}{conversation_summaries}'' =
       ([(''HLydia met you before.'', TOKEN_LIMIT_PERCENT), (''H'', TOKEN_LIMIT_PERCENT)],
        Inr ''H'')"
proof -
  have lazy:
    "generate_system_message (indexing_env 40) with_lydia ''{bios[0]}{conversation_summaries}'' =
       ([(''HLydia met you before.'', TOKEN_LIMIT_PERCENT), (''H'', TOKEN_LIMIT_PERCENT)],
        Inr ''H'')"
    using generate_system_message_attempts
      [of "indexing_env 40" with_lydia "''{bios[0]}{conversation_summaries}''"
          "''HLydia met you before.''" "''H''"]
    by (simp add: sample_bios sample_indexed_summaries sample_render_indexed
          sample_indexed_too_long)
  have first:
    "generate_system_message (sample_env 100) with_lydia ''{bios}{conversation_summaries}'' =
       ([(''Housecarl of Whiterun.Lydia met you before.'', TOKEN_LIMIT_PERCENT)],
        Inr ''Housecarl of Whiterun.Lydia met you before.'')"
    using generate_system_message_attempts
      [of "sample_env 100" with_lydia "''{bios}{conversation_summaries}''"
          "''Housecarl of Whiterun.Lydia met you before.''"]
    by (simp add: sample_bios sample_summaries sample_render_full sample_fits)
  have second:
    "generate_system_message (sample_env 60) with_lydia ''{bios}{conversation_summaries}'' =
       ([(''Housecarl of Whiterun.Lydia met you before.'', TOKEN_LIMIT_PERCENT),
         (''Housecarl of Whiterun.'', TOKEN_LIMIT_PERCENT)],
        Inr ''Housecarl of Whiterun.'')"
    using generate_system_message_attempts
      [of "sample_env 60" with_lydia "''{bios}{conversation_summaries}''"
          "''Housecarl of Whiterun.Lydia met you before.''" "''Housecarl of Whiterun.''"]
    by (simp add: sample_bios sample_summaries sample_render_full sample_render_bios
          sample_too_long)
  have third:
    "generate_system_message (sample_env 40) with_lydia ''{bios}{conversation_summaries}'' =
       ([(''Housecarl of Whiterun.Lydia met you before.'', TOKEN_LIMIT_PERCENT),
         (''Housecarl of Whiterun.'', TOKEN_LIMIT_PERCENT),
         ('''', TOKEN_LIMIT_PERCENT)],
        Inr '''')"
    using generate_system_message_attempts
      [of "sample_env 40" with_lydia "''{bios}{conversation_summaries}''"
          "''Housecarl of Whiterun.Lydia met you before.''" "''Housecarl of Whiterun.''" "''''"]
    by (simp add: sample_bios sample_summaries sample_render_full sample_render_bios
          sample_render_bare sample_too_long)
  have none:
    "generate_system_message (sample_env 10) with_lydia ''You are {name}. {bios}'' =
       ([(''You are Lydia. Housecarl of Whiterun.'', TOKEN_LIMIT_PERCENT),
         (''You are Lydia. Housecarl of Whiterun.'', TOKEN_LIMIT_PERCENT),
         (''You are Lydia. '', TOKEN_LIMIT_PERCENT)],
        Inr ''You are {name}. {bios}'')"
    using generate_system_message_attempts
      [of "sample_env 10" with_lydia "''You are {name}. {bios}''"
          "''You are Lydia. Housecarl of Whiterun.''" "''You are Lydia. Housecarl of Whiterun.''"
          "''You are Lydia. ''"]
    by (simp add: sample_bios sample_summaries sample_render_greeting sample_greeting_too_long)
  from first second third none lazy show ?thesis by (simp add: sample_render_indexed)
qed

text \<open>
  C5, as amended. When the full rendering fails the budget predicate, the rendering
  that keeps the bios and drops the summaries is tried next and returned if it passes,
  whatever the rendering without bios would be; the rendering without bios (and
  without summaries) is returned when that second rendering fails the predicate too
  and the bare one passes.
\<close>

theorem generate_system_message_bios_stripped:
  assumes "render_prompt env c prompt
             (get_bios_text c, get_prompt_text env (get_characters_excluding_player c)) = Inr t1"
    and "is_prompt_too_long env t1 TOKEN_LIMIT_PERCENT"
    and "render_prompt env c prompt (get_bios_text c, '''') = Inr t2"
  shows "(\<not> is_prompt_too_long env t2 TOKEN_LIMIT_PERCENT \<longrightarrow>
            snd (generate_system_message env c prompt) = Inr t2)
       \<and> (is_prompt_too_long env t2 TOKEN_LIMIT_PERCENT
            \<and> render_prompt env c prompt ('''', '''') = Inr t3
            \<and> \<not> is_prompt_too_long env t3 TOKEN_LIMIT_PERCENT \<longrightarrow>
            snd (generate_system_message env c prompt) = Inr t3)"
  using assms by (simp add: generate_system_message_cases)

theorem generate_system_message_bios_stripped_witness:
  "snd (generate_system_message (sample_env 60) with_lydia ''{bios}{conversation_summaries}'') =
     Inr ''Housecarl of Whiterun.''
   \<and> snd (generate_system_message (sample_env 40) with_lydia ''{bios}{conversation_summaries}'') =
       Inr ''''
   \<and> render_prompt (indexing_env 40) with_lydia ''{bios[0]}{conversation_summaries}''
       ('''', '''') = Inl IndexError
   \<and> snd (generate_system_message (indexing_env 40) with_lydia
            ''{bios[0]}{conversation_summaries}'') = Inr ''H''"
proof -
  have lazy: "snd (generate_system_message (indexing_env 40) with_lydia
                ''{bios[0]}{conversation_summaries}'') = Inr ''H''"
    using generate_system_message_bios_stripped
      [of "indexing_env 40" with_lydia "''{bios[0]}{conversation_summaries}''"
          "''HLydia met you before.''" "''H''"]
    by (simp add: sample_bios sample_indexed_summaries sample_render_indexed
          sample_indexed_too_long)
  have a: "snd (generate_system_message (sample_env 60) with_lydia
             ''{bios}{conversation_summaries}'') = Inr ''Housecarl of Whiterun.''"
    using generate_system_message_bios_stripped
      [of "sample_env 60" with_lydia "''{bios}{conversation_summaries}''"
          "''Housecarl of Whiterun.Lydia met you before.''" "''Housecarl of Whiterun.''"]
    by (simp add: sample_bios sample_summaries sample_render_full sample_render_bios
          sample_too_long)
  have b: "snd (generate_system_message (sample_env 40) with_lydia
             ''{bios}{conversation_summaries}'') = Inr ''''"
    using generate_system_message_bios_stripped
      [of "sample_env 40" with_lydia "''{bios}{conversation_summaries}''"
          "''Housecarl of Whiterun.Lydia met you before.''" "''Housecarl of Whiterun.''" "''''"]
    by (simp add: sample_bios sample_summaries sample_render_full sample_render_bios
          sample_render_bare sample_too_long)
  from a b lazy show ?thesis by (simp add: sample_render_indexed)
qed

text \<open>
  C5 as stated fails: with the template \<^verbatim>\<open>{bios}{conversation_summaries}\<close> and a budget
  that the full rendering exceeds while both reduced renderings fit, the rendering
  without bios is the empty string, yet the function returns the rendering that still
  holds the bios.
\<close>

theorem generate_system_message_bios_stripped_counterexample:
  "render_prompt (sample_env 60) with_lydia ''{bios}{conversation_summaries}''
     (get_bios_text with_lydia,
      get_prompt_text (sample_env 60) (get_characters_excluding_player with_lydia)) =
     Inr ''Housecarl of Whiterun.Lydia met you before.''
   \<and> is_prompt_too_long (sample_env 60) ''Housecarl of Whiterun.Lydia met you before.''
       TOKEN_LIMIT_PERCENT
   \<and> render_prompt (sample_env 60) with_lydia ''{bios}{conversation_summaries}'' ('''', '''') =
       Inr ''''
   \<and> \<not> is_prompt_too_long (sample_env 60) '''' TOKEN_LIMIT_PERCENT
   \<and> snd (generate_system_message (sample_env 60) with_lydia ''{bios}{conversation_summaries}'')
       = Inr ''Housecarl of Whiterun.''"
  by (simp add: sample_bios sample_summaries sample_render_full sample_render_bios
        sample_render_bare sample_too_long generate_system_message_def Let_def)

text \<open>
  C1, as amended. For every conversation state whose roster has a last-added character
  and whose language table has the entry \<^verbatim>\<open>language\<close>, and every template that
  \<^verbatim>\<open>str.format\<close> fills without error for the three contents,
  \<open>generate_system_message\<close> returns a string; when all three renderings fail the
  too-long predicate it returns the unfilled template unchanged.
\<close>

theorem generate_system_message_returns:
  assumes "last_added_character (npcs_in_conversation c) = Some ch"
    and "language c ''language'' = Some lang"
    and "str_format env prompt
           (format_arguments env c (name ch) lang
              (get_bios_text c, get_prompt_text env (get_characters_excluding_player c))) = Inr t1"
    and "str_format env prompt
           (format_arguments env c (name ch) lang (get_bios_text c, '''')) = Inr t2"
    and "str_format env prompt (format_arguments env c (name ch) lang ('''', '''')) = Inr t3"
  shows "(\<exists>s. snd (generate_system_message env c prompt) = Inr s)
       \<and> (is_prompt_too_long env t1 TOKEN_LIMIT_PERCENT
            \<and> is_prompt_too_long env t2 TOKEN_LIMIT_PERCENT
            \<and> is_prompt_too_long env t3 TOKEN_LIMIT_PERCENT \<longrightarrow>
          snd (generate_system_message env c prompt) = Inr prompt)"
proof -
  have "render_prompt env c prompt
          (get_bios_text c, get_prompt_text env (get_characters_excluding_player c)) = Inr t1"
    and "render_prompt env c prompt (get_bios_text c, '''') = Inr t2"
    and "render_prompt env c prompt ('''', '''') = Inr t3"
    using assms by (simp_all add: render_prompt_def)
  from generate_system_message_unrolled [OF this] show ?thesis by simp
qed

lemma sample_format_all_too_long:
  "str_format (sample_env 10) ''You are {name}. {bios}''
     (format_arguments (sample_env 10) with_lydia ''Lydia'' ''English''
        (''Housecarl of Whiterun.'', ''Lydia met you before.'')) =
     Inr ''You are Lydia. Housecarl of Whiterun.''"
  "str_format (sample_env 10) ''You are {name}. {bios}''
     (format_arguments (sample_env 10) with_lydia ''Lydia'' ''English''
        (''Housecarl of Whiterun.'', '''')) =
     Inr ''You are Lydia. Housecarl of Whiterun.''"
  "str_format (sample_env 10) ''You are {name}. {bios}''
     (format_arguments (sample_env 10) with_lydia ''Lydia'' ''English'' ('''', '''')) =
     Inr ''You are Lydia. ''"
  by (simp_all add: sample_env_def format_arguments_def lookup_field_def on_result_def
        py_str_def)

theorem generate_system_message_returns_witness:
  "snd (generate_system_message (sample_env 10) with_lydia ''You are {name}. {bios}'') =
     Inr ''You are {name}. {bios}''"
proof -
  have la: "last_added_character (npcs_in_conversation with_lydia) = Some lydia"
    by (simp add: with_lydia_def add_character_def)
  have lg: "language with_lydia ''language'' = Some ''English''"
    by (simp add: with_lydia_def skyrim_start_def init_context_def)
  have nm: "name lydia = ''Lydia''" by (simp add: lydia_def)
  have long: "is_prompt_too_long (sample_env 10) ''You are Lydia. Housecarl of Whiterun.''
                TOKEN_LIMIT_PERCENT"
    "is_prompt_too_long (sample_env 10) ''You are Lydia. '' TOKEN_LIMIT_PERCENT"
    by (simp_all add: sample_env_def TOKEN_LIMIT_PERCENT_def)
  show ?thesis
    using generate_system_message_returns
      [OF la lg, of "sample_env 10" "''You are {name}. {bios}''"
         "''You are Lydia. Housecarl of Whiterun.''" "''You are Lydia. Housecarl of Whiterun.''"
         "''You are Lydia. ''"]
    by (simp add: nm sample_bios sample_summaries sample_format_all_too_long long)
qed

text \<open>
  C1 as stated fails. With an empty roster (no last-added character) the local variable
  \<^verbatim>\<open>name\<close> is read unassigned, whatever the template; with Lydia in the roster a
  template naming an unknown field makes \<^verbatim>\<open>str.format\<close> raise; and a language table
  without the key \<^verbatim>\<open>language\<close> raises as well.
\<close>

theorem generate_system_message_raises_counterexample:
  "last_added_character (npcs_in_conversation (snd skyrim_start)) = None
   \<and> snd (generate_system_message (sample_env 100) (snd skyrim_start) ''Hello'') =
       Inl (UnboundLocalError ''name'')
   \<and> snd (generate_system_message (sample_env 100) with_lydia ''{mood}'') =
       Inl (KeyError ''mood'')
   \<and> snd (generate_system_message (sample_env 100) (with_lydia\<lparr>language := Map.empty\<rparr>)
            ''Hello'') = Inl (KeyError ''language'')"
  by (simp add: generate_system_message_def render_prompt_def Let_def with_lydia_def
        skyrim_start_def init_context_def add_character_def no_characters_def sample_env_def
        lookup_field_def format_arguments_def)

section \<open>Properties of the resolver\<close>

subsection \<open>Series and rows\<close>

text \<open>
  The series the code computes are the row criteria of the specification mapped over
  the table, and selecting rows by a series is filtering by the criterion.
\<close>

lemma df_loc_map: "df_loc df (map P df) = filter P df"
  by (induction df) (simp_all add: df_loc_def)

lemma series_and_map: "series_and (map P df) (map Q df) = map (\<lambda>r. P r \<and> Q r) df"
  by (induction df) (simp_all add: series_and_def)

lemma series_any_map: "series_any (map P df) = list_ex P df"
  by (induction df) (simp_all add: series_any_def)

lemma series_any_replicate_False: "\<not> series_any (replicate n False)"
  by (induction n) (simp_all add: series_any_def)

lemma id_match_rows:
  "id_match df (lstrip_zeros (last_chars 6 character_id)) = map (row_id_matches character_id) df"
  by (simp add: id_match_def row_id_matches_def)

lemma name_match_rows: "name_match df character_name = map (row_name_matches character_name) df"
  by (simp add: name_match_def row_name_matches_def)

lemma race_match_rows: "race_match df character_race = map (row_race_matches character_race) df"
  by (simp add: race_match_def row_race_matches_def)

lemma partial_id_series_rows:
  "partial_id_series df character_id len = map (row_partial_id_matches_at len character_id) df"
  by (simp add: partial_id_series_def row_partial_id_matches_at_def)

lemma partial_id_match_rows:
  "partial_id_match df character_id = map (row_partial_id_matches df character_id) df"
  by (simp add: partial_id_match_def series_any_replicate_False partial_id_series_rows
        series_any_map row_partial_id_matches_def partial_length_def)

lemma try_found:
  "try_except_IndexError
     (case first_record (filter P df) of Inl e \<Rightarrow> Inl e | Inr info \<Rightarrow> Inr (info, False)) handler =
   (case filter P df of [] \<Rightarrow> handler | r # rs \<Rightarrow> Inr (r, False))"
  by (cases "filter P df") (simp_all add: try_except_IndexError_def first_record_def index_def)

lemma find_character_info_unfolded:
  assumes "character_df g = Some df" and "character_race_of race_str = Inr cr"
  shows "find_character_info g load_npc character_id character_name race_str gender voice =
     Inr (case cascade (tiers df character_id character_name cr) df of
            Some r \<Rightarrow> (r, False)
          | None \<Rightarrow> (load_npc character_name cr gender voice, True))"
  using assms
  by (simp add: find_character_info_def Let_def id_match_rows name_match_rows race_match_rows
        partial_id_match_rows series_and_map df_loc_map try_found tiers_def
      split: list.split)

lemma split_from_not_Nil: "split_from sep acc s \<noteq> []"
  by (induction sep acc s rule: split_from.induct) simp_all

lemma split_from_char_twice:
  "c \<in> set s \<Longrightarrow> 2 \<le> length (split_from [c] acc s)"
proof (induction s arbitrary: acc)
  case Nil
  then show ?case by simp
next
  case (Cons x xs)
  show ?case
  proof (cases "x = c")
    case True
    have "split_from [c] [] xs \<noteq> []" by (rule split_from_not_Nil)
    then have "1 \<le> length (split_from [c] [] xs)" by (cases "split_from [c] [] xs") simp_all
    with True show ?thesis by simp
  next
    case False
    with Cons.prems have "c \<in> set xs" by simp
    from Cons.IH [OF this] False show ?thesis by simp
  qed
qed

lemma character_race_of_returns:
  assumes "CHR ''<'' \<in> set race_str"
  shows "\<exists>cr. character_race_of race_str = Inr cr"
proof -
  from split_from_char_twice [OF assms, of "[]"]
  have "1 < length (split race_str ''<'')" by (simp add: split_def)
  moreover have "0 < length (split rest ''Race '')" for rest
    using split_from_not_Nil [of "''Race ''" "[]" rest] by (simp add: split_def)
  ultimately show ?thesis by (simp add: character_race_of_def index_def)
qed

lemma split_from_char_absent: "c \<notin> set s \<Longrightarrow> split_from [c] acc s = [acc @ s]"
  by (induction s arbitrary: acc) auto

lemma character_race_of_raises:
  "CHR ''<'' \<notin> set race_str \<Longrightarrow> character_race_of race_str = Inl IndexError"
  by (simp add: character_race_of_def split_def split_from_char_absent index_def)

lemma cascade_None: "cascade ts rows = None \<longleftrightarrow> (\<forall>t\<in>set ts. \<forall>r\<in>set rows. \<not> t r)"
  by (induction ts) (auto simp: filter_empty_conv split: list.split)

lemma cascade_Some: "cascade ts rows = Some r \<Longrightarrow> r \<in> set rows"
proof (induction ts)
  case Nil
  then show ?case by simp
next
  case (Cons t ts)
  show ?case
  proof (cases "filter t rows")
    case Nil
    with Cons show ?thesis by simp
  next
    case (Cons a as)
    with Cons.prems have "r = a" by simp
    moreover from Cons have "a \<in> set (filter t rows)" by simp
    ultimately show ?thesis by simp
  qed
qed

subsection \<open>The cascade\<close>

text \<open>
  C6, as amended. For a loaded table and a race string the code can parse,
  \<open>find_character_info\<close> tries the tiers in the fixed order (1) name, full id and
  race, (2) name and full id, (3) name, partial id and race, (4) name and partial id,
  (5) name and race, (6) name only, (7) full id only, and returns the first row of the
  first tier that matches any row, flagged as not generic; when no tier matches it
  returns the record of \<open>load_unnamed_npc\<close>, flagged as generic. The partial id is
  compared at the first of the lengths 5, 4, 3 at which some row matches (at 3 when
  none does). Tier 7 does not use the partial id.
\<close>

theorem find_character_info_cascade:
  assumes "character_df g = Some df" and "character_race_of race_str = Inr cr"
  shows "find_character_info g load_npc character_id character_name race_str gender voice =
     Inr (case cascade
            [\<lambda>r. row_name_matches character_name r \<and> row_id_matches character_id r
                   \<and> row_race_matches cr r,
             \<lambda>r. row_name_matches character_name r \<and> row_id_matches character_id r,
             \<lambda>r. row_name_matches character_name r \<and> row_partial_id_matches df character_id r
                   \<and> row_race_matches cr r,
             \<lambda>r. row_name_matches character_name r \<and> row_partial_id_matches df character_id r,
             \<lambda>r. row_name_matches character_name r \<and> row_race_matches cr r,
             \<lambda>r. row_name_matches character_name r,
             \<lambda>r. row_id_matches character_id r] df of
            Some r \<Rightarrow> (r, False)
          | None \<Rightarrow> (load_npc character_name cr gender voice, True))"
  using find_character_info_unfolded [OF assms] by (simp add: tiers_def)

lemma sample_race: "character_race_of ''<NordRace (00013746)>'' = Inr ''Nord''"
  by code_simp

lemma sample_table: "character_df sample_game = Some [namesake_row, lydia_row]"
  by (simp add: sample_game_def)

lemma lydia_row_matches:
  "row_name_matches ''lydia'' lydia_row"
  "row_id_matches ''000A2C94'' lydia_row"
  "row_race_matches ''Nord'' lydia_row"
  by (simp_all add: row_name_matches_def row_id_matches_def row_race_matches_def lydia_row_def
        str_cell_def remove_leading_zeros_def isna_def lower_def lower_char_def
        lstrip_zeros_def last_chars_def)

lemma lydia_row_no_match:
  "\<not> row_name_matches ''Uthgerd'' lydia_row"
  "\<not> row_id_matches ''FF0B2C94'' lydia_row"
  by (simp_all add: row_name_matches_def row_id_matches_def lydia_row_def
        str_cell_def remove_leading_zeros_def isna_def lower_def lower_char_def
        lstrip_zeros_def last_chars_def)

lemma namesake_row_matches:
  "row_name_matches ''lydia'' namesake_row"
  "\<not> row_id_matches ''000A2C94'' namesake_row"
  "\<not> row_name_matches ''Uthgerd'' namesake_row"
  "\<not> row_id_matches ''FF0B2C94'' namesake_row"
  by (simp_all add: row_name_matches_def row_id_matches_def namesake_row_def
        str_cell_def remove_leading_zeros_def isna_def lower_def lower_char_def
        lstrip_zeros_def last_chars_def)

theorem find_character_info_cascade_witness:
  "find_character_info sample_game sample_unnamed_npc ''000A2C94'' ''lydia''
     ''<NordRace (00013746)>'' 1 ''FemaleEvenToned'' = Inr (lydia_row, False)"
  using find_character_info_cascade
    [OF sample_table sample_race, of sample_unnamed_npc "''000A2C94''" "''lydia''" 1
       "''FemaleEvenToned''"]
  by (simp add: lydia_row_matches namesake_row_matches)

text \<open>
  C6 as stated fails on its tier 7. The table holds two rows named Lydia, the second
  with id \<^verbatim>\<open>000A2C94\<close>; the query has another name and the id \<^verbatim>\<open>FF0B2C94\<close>, whose
  last four digits match the second row's (the partial-id series is true for that row),
  while the full ids differ. The resolver returns the generic record.
\<close>

theorem find_character_info_partial_id_counterexample:
  "character_df sample_game = Some [namesake_row, lydia_row]
   \<and> partial_id_match [namesake_row, lydia_row] ''FF0B2C94'' = [False, True]
   \<and> find_character_info sample_game sample_unnamed_npc ''FF0B2C94'' ''Uthgerd''
       ''<NordRace (00013746)>'' 1 ''FemaleNord'' =
       Inr (sample_unnamed_npc ''Uthgerd'' ''Nord'' 1 ''FemaleNord'', True)"
proof -
  have p: "partial_id_match [namesake_row, lydia_row] ''FF0B2C94'' = [False, True]"
    by (simp add: partial_id_match_def partial_id_series_def series_any_def partial_id_of_def
          lydia_row_def namesake_row_def notna_def str_cell_def remove_leading_zeros_def isna_def lower_def
          lower_char_def lstrip_zeros_def last_chars_def)
  have f: "find_character_info sample_game sample_unnamed_npc ''FF0B2C94'' ''Uthgerd''
       ''<NordRace (00013746)>'' 1 ''FemaleNord'' =
       Inr (sample_unnamed_npc ''Uthgerd'' ''Nord'' 1 ''FemaleNord'', True)"
    by (simp add: find_character_info_unfolded [OF sample_table sample_race] tiers_def
          lydia_row_no_match namesake_row_matches)
  from sample_table p f show ?thesis by simp
qed

text \<open>
  C2, as amended. For a game object whose table was loaded and every input whose race
  string contains \<^verbatim>\<open><\<close>, \<open>find_character_info\<close> raises no exception: the race is
  parsed, and when no tier matches any row the result is the record of
  \<open>load_unnamed_npc\<close> with the generic flag true; otherwise it is a row of the table
  with the flag false.
\<close>

theorem find_character_info_total:
  assumes "character_df g = Some df" and "CHR ''<'' \<in> set race_str"
  shows "\<exists>cr. character_race_of race_str = Inr cr
       \<and> (if \<forall>t\<in>set (tiers df character_id character_name cr). \<forall>r\<in>set df. \<not> t r
          then find_character_info g load_npc character_id character_name race_str gender voice
                 = Inr (load_npc character_name cr gender voice, True)
          else \<exists>r\<in>set df.
                 find_character_info g load_npc character_id character_name race_str gender voice
                 = Inr (r, False))"
proof -
  from character_race_of_returns [OF assms(2)]
  obtain cr where cr: "character_race_of race_str = Inr cr" by blast
  let ?c = "cascade (tiers df character_id character_name cr) df"
  note unfolded = find_character_info_unfolded
    [OF assms(1) cr, of load_npc character_id character_name gender voice]
  show ?thesis
  proof (cases ?c)
    case None
    with unfolded cr show ?thesis by (auto simp: cascade_None)
  next
    case (Some r)
    then have "r \<in> set df" by (rule cascade_Some)
    moreover from Some have "\<not> (\<forall>t\<in>set (tiers df character_id character_name cr). \<forall>r\<in>set df. \<not> t r)"
      using cascade_None [of "tiers df character_id character_name cr" df] by simp
    ultimately show ?thesis using unfolded cr Some by auto
  qed
qed

theorem find_character_info_total_witness:
  "find_character_info sample_game sample_unnamed_npc ''FF0B2C94'' ''Uthgerd''
     ''<NordRace (00013746)>'' 1 ''FemaleNord'' =
     Inr (sample_unnamed_npc ''Uthgerd'' ''Nord'' 1 ''FemaleNord'', True)"
proof -
  have lt: "CHR ''<'' \<in> set ''<NordRace (00013746)>''" by simp
  have none: "\<forall>t\<in>set (tiers [namesake_row, lydia_row] ''FF0B2C94'' ''Uthgerd'' ''Nord'').
                \<forall>r\<in>set [namesake_row, lydia_row]. \<not> t r"
    by (simp add: tiers_def lydia_row_no_match namesake_row_matches)
  from find_character_info_total
    [OF sample_table lt, of "''FF0B2C94''" "''Uthgerd''" sample_unnamed_npc 1 "''FemaleNord''"]
  show ?thesis using none by (simp add: sample_race)
qed

text \<open>
  C2 as stated fails. A race string without \<^verbatim>\<open><\<close> makes
  \<^verbatim>\<open>race.split('<')[1]\<close> raise \<^verbatim>\<open>IndexError\<close> outside every \<^verbatim>\<open>try\<close>, although the
  name and the id match a row; and on an object whose table was never assigned the
  property \<^verbatim>\<open>character_df\<close> raises \<^verbatim>\<open>AttributeError\<close>.
\<close>

theorem find_character_info_raises_counterexample:
  "find_character_info sample_game sample_unnamed_npc ''000A2C94'' ''Lydia'' ''Nord'' 1
     ''FemaleEvenToned'' = Inl IndexError
   \<and> find_character_info (sample_game\<lparr>character_df := None\<rparr>) sample_unnamed_npc ''000A2C94''
       ''Lydia'' ''<NordRace (00013746)>'' 1 ''FemaleEvenToned'' = Inl AttributeError"
proof -
  have "character_race_of ''Nord'' = Inl IndexError" by code_simp
  then show ?thesis
    by (simp add: find_character_info_def sample_game_def Let_def)
qed

subsection \<open>Loading the table\<close>

text \<open>
  C3. The first half holds: rows without a voice model are dropped by
  \<open>get_character_df\<close>. The second half does not: when the file cannot be read, the
  constructor logs the error, shows the prompt \<^verbatim>\<open>Press Enter to exit.\<close> and then goes
  on: it returns an object whose table was never assigned, and the process does not
  exit. Below, the constructor is run with a reader that raises.
\<close>

theorem gameable_init_does_not_exit:
  "gameable_init (\<lambda>f. Inr ''utf-8'') (\<lambda>f enc. Inl ValueError) [] '''' ''skyrim_characters.csv''
     ''Skyrim'' =
     ([LogError ''Unable to read / open skyrim_characters.csv. If you have recently edited this file, please try reverting to a previous version. This error is normally due to using special characters, or saving the CSV in an incompatible format.'',
       InputPrompt ''Press Enter to exit.''],
      Returned \<lparr>character_df = (None :: unit data_frame option),
                conversation_folder_path = ''data/Skyrim/conversations''\<rparr>)"
  by (simp add: gameable_init_def get_character_df_def)

lemma get_character_df_drops_rows:
  "get_character_df enc rd f = Inr df \<Longrightarrow> \<forall>r\<in>set df. voice_model r \<noteq> NaN"
  by (auto simp: get_character_df_def notna_def split: sum.splits)

lemma gameable_init_never_exits:
  "snd (gameable_init enc rd argv integrated_root path folder) \<noteq> Exited n"
  by (simp add: gameable_init_def Let_def split: sum.split prod.split)

end
